theory Spec2Isabelle
  imports Main
begin

section \<open>Props objects and element attributes\<close>

text \<open>
  A JSX element receives a props object. The attributes that the Tabs components put on
  their elements are modelled as a finite map from attribute names to values. A JSX
  spread \<^verbatim>\<open>{...rest}\<close> written after explicit attributes overrides them key by key,
  which is \<open>explicit ++ rest\<close> on maps. A key may be present with the value
  \<^verbatim>\<open>undefined\<close>.
\<close>

datatype attr = Str string | Bool bool | Num int | Undefined

type_synonym attrs = "string \<rightharpoonup> attr"

datatype orientation = horizontal | vertical

datatype direction = ltr | rtl

datatype activationMode = automatic | manual

definition orientation_attr :: "orientation option \<Rightarrow> attr" where
  "orientation_attr x =
     (case x of None \<Rightarrow> Undefined
      | Some horizontal \<Rightarrow> Str ''horizontal''
      | Some vertical \<Rightarrow> Str ''vertical'')"

definition dir_attr :: "direction option \<Rightarrow> attr" where
  "dir_attr x =
     (case x of None \<Rightarrow> Undefined
      | Some ltr \<Rightarrow> Str ''ltr''
      | Some rtl \<Rightarrow> Str ''rtl'')"

section \<open>The Tabs context\<close>

definition TABS_NAME :: string where
  "TABS_NAME = ''Tabs''"

text \<open>
  \<^verbatim>\<open>TabsContextValue\<close>. The field \<^verbatim>\<open>value\<close> is optional in the source and is called
  \<open>ctx_value\<close> here. The callback \<^verbatim>\<open>onValueChange: (value: string) => void\<close> acts by
  side effect; a call of it is the effect \<open>onValueChange context v :: 'eff\<close>, and an event
  handler returns the list of the effects it performed, in order. An empty list means
  that the callback was not invoked.
\<close>

record 'eff TabsContextValue =
  baseId :: string
  ctx_value :: "string option"
  onValueChange :: "string \<Rightarrow> 'eff"
  orientation :: "orientation option"
  dir :: "direction option"
  activationMode :: "activationMode option"

text \<open>
  Modelled from the spec: the error raised by \<^verbatim>\<open>useTabsContext\<close>, whose code is not
  among the sources. The spec (sections 6 and 7) asks for a descriptive error that
  identifies which unit was misused and which context was expected: the error carries
  the consumer's name and the provider's name.
\<close>

datatype error = MustBeUsedWithin string string

text \<open>
  Modelled from the spec: \<^verbatim>\<open>useTabsContext\<close> is produced by \<^verbatim>\<open>createContextScope\<close> of the
  package \<^verbatim>\<open>@radix-ui/react-context\<close>, whose code is not among the sources. The spec
  (sections 6 and 7) says that a unit rendered without an enclosing Root raises, at
  render time, an error naming the offending unit and the expected provider. The
  enclosing provider, if any, is the argument \<open>env\<close>.
\<close>

definition useTabsContext :: "string \<Rightarrow> 'ctx option \<Rightarrow> error + 'ctx" where
  "useTabsContext consumerName env =
     (case env of
        None \<Rightarrow> Inl (MustBeUsedWithin consumerName TABS_NAME)
      | Some context \<Rightarrow> Inr context)"

text \<open>
  Modelled from the spec: the props that carry a scope, a notion of
  \<^verbatim>\<open>createContextScope\<close>, whose code is not among the sources. The spec treats the
  scoping mechanism as an external collaborator; the scope travels in props whose key
  starts with \<^verbatim>\<open>__scope\<close>.
\<close>

definition isScopeProp :: "string \<Rightarrow> bool" where
  "isScopeProp k = (take 7 k = ''__scope'')"

text \<open>
  Modelled from the spec: \<^verbatim>\<open>removeTabsScopeProps\<close> is the second component returned by
  \<^verbatim>\<open>createContextScope\<close>, whose code is not among the sources. The spec describes the
  remaining props as pass-through attributes: the props that carry a scope are
  dropped, every other prop is passed on unchanged.
\<close>

definition removeTabsScopeProps :: "attrs \<Rightarrow> attrs" where
  "removeTabsScopeProps props = (\<lambda>k. if isScopeProp k then None else props k)"

text \<open>
  Modelled from the spec: the caller's own handler of an event, as
  \<^verbatim>\<open>composeEventHandlers\<close> sees it (section 9 of the spec). A caller's handler is
  optional; it is a function of the event that returns \<open>True\<close> when it signals explicit
  suppression. It has no access to the context callback, so it contributes no effect
  to the list of a composed handler.
\<close>

definition signalsSuppression :: "('e \<Rightarrow> bool) option \<Rightarrow> 'e \<Rightarrow> bool" where
  "signalsSuppression originalEventHandler event =
     (case originalEventHandler of None \<Rightarrow> False | Some h \<Rightarrow> h event)"

text \<open>
  Modelled from the spec: \<^verbatim>\<open>composeEventHandlers\<close> belongs to the package
  \<^verbatim>\<open>@radix-ui/primitive\<close>, whose code is not among the sources. The spec (section 9)
  describes it as an ordered chain: the caller's handler is called first, then the
  internal handler, both unconditionally unless the caller's handler signals explicit
  suppression.
\<close>

definition composeEventHandlers ::
  "('e \<Rightarrow> bool) option \<Rightarrow> ('e \<Rightarrow> 'eff list) \<Rightarrow> 'e \<Rightarrow> 'eff list" where
  "composeEventHandlers originalEventHandler ourEventHandler event =
     (if signalsSuppression originalEventHandler event then []
      else ourEventHandler event)"

section \<open>Tabs\<close>

text \<open>
  \<^verbatim>\<open>TabsProps\<close>. The source destructures \<^verbatim>\<open>value\<close> as \<^verbatim>\<open>valueProp\<close>; the other fields
  that share a name with a context field carry the suffix \<open>Prop\<close>. The owner's
  callback acts on the owner's own state \<open>'o\<close>.
\<close>

record 'o TabsProps =
  valueProp :: "string option"
  onValueChangeProp :: "(string \<Rightarrow> 'o \<Rightarrow> 'o) option"
  defaultValue :: "string option"
  orientationProp :: "orientation option"
  dirProp :: "direction option"
  activationModeProp :: "activationMode option"
  tabsProps :: attrs

text \<open>
  Modelled from the spec: the state that \<^verbatim>\<open>useControllableState\<close>, whose code is not
  among the sources, keeps behind one mounted Tabs. It holds the internal cell of the
  uncontrolled mode (section 3 of the spec) and the state of the owner, on which the
  owner's callback acts.
\<close>

record 'o TabsState =
  uncontrolledProp :: "string option"
  owner :: 'o

text \<open>
  Modelled from the spec: at mount the internal cell is seeded from the optional
  initial value (section 3 of the spec).
\<close>

definition mount :: "'o TabsProps \<Rightarrow> 'o \<Rightarrow> 'o TabsState" where
  "mount props o0 = \<lparr>uncontrolledProp = defaultValue props, owner = o0\<rparr>"

text \<open>
  Modelled from the spec: the change notification of \<^verbatim>\<open>useControllableState\<close>. The
  owner's callback is optional; when it is supplied it is called with the requested
  value.
\<close>

definition handleChange :: "(string \<Rightarrow> 'o \<Rightarrow> 'o) option \<Rightarrow> string \<Rightarrow> 'o \<Rightarrow> 'o" where
  "handleChange onChange v ow = (case onChange of None \<Rightarrow> ow | Some f \<Rightarrow> f v ow)"

text \<open>
  Modelled from the spec: the first component returned by \<^verbatim>\<open>useControllableState\<close>
  of the package \<^verbatim>\<open>@radix-ui/react-use-controllable-state\<close>, whose code is not among
  the sources. The spec (section 4.1): if an external value is supplied, it is always
  authoritative; otherwise the value is the internal cell.
\<close>

definition useControllableState_value :: "string option \<Rightarrow> 'o TabsState \<Rightarrow> string option" where
  "useControllableState_value prop st =
     (case prop of Some v \<Rightarrow> Some v | None \<Rightarrow> uncontrolledProp st)"

text \<open>
  Modelled from the spec: the setter returned by \<^verbatim>\<open>useControllableState\<close>. The spec
  (section 4.1): if an external value is supplied, an internal attempt to change it
  only invokes the notification callback and does not self-mutate; if no external
  value is supplied, the internal cell is mutated directly and the same callback is
  invoked.
\<close>

definition useControllableState_setValue ::
  "string option \<Rightarrow> (string \<Rightarrow> 'o \<Rightarrow> 'o) option \<Rightarrow> string \<Rightarrow> 'o TabsState \<Rightarrow> 'o TabsState" where
  "useControllableState_setValue prop onChange nextValue st =
     (case prop of
        Some v \<Rightarrow> st\<lparr>owner := handleChange onChange nextValue (owner st)\<rparr>
      | None \<Rightarrow> st\<lparr>uncontrolledProp := Some nextValue,
                   owner := handleChange onChange nextValue (owner st)\<rparr>)"

text \<open>
  What \<^verbatim>\<open>Tabs\<close> renders: the context it provides and the attributes of its container.
  The identifier returned by \<^verbatim>\<open>useId()\<close> is the argument \<open>useId\<close>.
\<close>

record 'o TabsElement =
  provider :: "('o TabsState \<Rightarrow> 'o TabsState) TabsContextValue"
  root_attrs :: attrs

definition Tabs :: "string \<Rightarrow> 'o TabsProps \<Rightarrow> 'o TabsState \<Rightarrow> 'o TabsElement" where
  "Tabs useId props st =
     (let orientation' = (case orientationProp props of None \<Rightarrow> horizontal | Some x \<Rightarrow> x);
          dir' = (case dirProp props of None \<Rightarrow> ltr | Some x \<Rightarrow> x);
          activationMode' = (case activationModeProp props of None \<Rightarrow> automatic | Some x \<Rightarrow> x);
          value = useControllableState_value (valueProp props) st;
          setValue = useControllableState_setValue (valueProp props) (onValueChangeProp props)
      in \<lparr>provider =
            \<lparr>baseId = useId,
             ctx_value = value,
             onValueChange = setValue,
             orientation = Some orientation',
             dir = Some dir',
             activationMode = Some activationMode'\<rparr>,
          root_attrs =
            map_of [(''data-orientation'', orientation_attr (Some orientation'))]
              ++ removeTabsScopeProps (tabsProps props)\<rparr>)"

text \<open>Performing the effects that an event handler returned, in order.\<close>

definition perform :: "('s \<Rightarrow> 's) list \<Rightarrow> 's \<Rightarrow> 's" where
  "perform effs st = fold (\<lambda>f. f) effs st"

section \<open>TabsList\<close>

definition TAB_LIST_NAME :: string where
  "TAB_LIST_NAME = ''TabsList''"

record TabsListProps =
  loop :: "bool option"
  listProps :: attrs

text \<open>
  The roving focus group is an external collaborator: the model keeps the configuration
  handed to \<^verbatim>\<open>RovingFocusGroup.Root\<close> and the attributes of the inner element.
\<close>

record TabsListElement =
  group_orientation :: "orientation option"
  group_dir :: "direction option"
  group_loop :: bool
  list_attrs :: attrs

definition TabsList :: "'eff TabsContextValue option \<Rightarrow> TabsListProps \<Rightarrow> error + TabsListElement" where
  "TabsList env props =
     (case useTabsContext TAB_LIST_NAME env of
        Inl e \<Rightarrow> Inl e
      | Inr context \<Rightarrow>
          Inr \<lparr>group_orientation = orientation context,
               group_dir = dir context,
               group_loop = (case loop props of None \<Rightarrow> True | Some l \<Rightarrow> l),
               list_attrs =
                 map_of [(''role'', Str ''tablist''), (''dir'', dir_attr (dir context))]
                   ++ removeTabsScopeProps (listProps props)\<rparr>)"

section \<open>TabsTrigger\<close>

definition TRIGGER_NAME :: string where
  "TRIGGER_NAME = ''TabsTrigger''"

record KeyboardEvent =
  key :: string

record MouseEvent =
  button :: int
  ctrlKey :: bool

datatype FocusEvent = FocusEvent

text \<open>
  \<^verbatim>\<open>TabsTriggerProps\<close>: \<^verbatim>\<open>value\<close> (here \<open>trigger_value\<close>), \<^verbatim>\<open>disabled\<close> with its default
  already applied, the caller's own handlers, and the remaining pass-through props.
\<close>

record TabsTriggerProps =
  trigger_value :: string
  disabled :: bool
  onKeyDown :: "(KeyboardEvent \<Rightarrow> bool) option"
  onMouseDown :: "(MouseEvent \<Rightarrow> bool) option"
  onFocus :: "(FocusEvent \<Rightarrow> bool) option"
  triggerProps :: attrs

definition makeTriggerId :: "string \<Rightarrow> string \<Rightarrow> string" where
  "makeTriggerId b v = b @ ''-trigger-'' @ v"

definition makeContentId :: "string \<Rightarrow> string \<Rightarrow> string" where
  "makeContentId b v = b @ ''-content-'' @ v"

text \<open>
  \<^verbatim>\<open>const isSelected = value === context.value\<close>, computed alike by the trigger and the
  panel. A string is never strictly equal to \<^verbatim>\<open>undefined\<close>.
\<close>

definition isSelected :: "string \<Rightarrow> 'eff TabsContextValue \<Rightarrow> bool" where
  "isSelected v context = (ctx_value context = Some v)"

definition handleTabChange :: "'eff TabsContextValue \<Rightarrow> string \<Rightarrow> 'eff list" where
  "handleTabChange context v = [onValueChange context v]"

definition TabsTrigger_onKeyDown ::
  "'eff TabsContextValue \<Rightarrow> TabsTriggerProps \<Rightarrow> KeyboardEvent \<Rightarrow> 'eff list" where
  "TabsTrigger_onKeyDown context props =
     composeEventHandlers (onKeyDown props) (\<lambda>event.
       if \<not> disabled props \<and> (key event = '' '' \<or> key event = ''Enter'')
       then handleTabChange context (trigger_value props)
       else [])"

definition TabsTrigger_onMouseDown ::
  "'eff TabsContextValue \<Rightarrow> TabsTriggerProps \<Rightarrow> MouseEvent \<Rightarrow> 'eff list" where
  "TabsTrigger_onMouseDown context props =
     composeEventHandlers (onMouseDown props) (\<lambda>event.
       if \<not> disabled props \<and> button event = 0 \<and> ctrlKey event = False
       then handleTabChange context (trigger_value props)
       else [])"

definition TabsTrigger_onFocus ::
  "'eff TabsContextValue \<Rightarrow> TabsTriggerProps \<Rightarrow> FocusEvent \<Rightarrow> 'eff list" where
  "TabsTrigger_onFocus context props =
     composeEventHandlers (onFocus props) (\<lambda>event.
       let isAutomaticActivation = (activationMode context \<noteq> Some manual)
       in if \<not> isSelected (trigger_value props) context \<and> \<not> disabled props
              \<and> isAutomaticActivation
          then handleTabChange context (trigger_value props)
          else [])"

text \<open>
  What \<^verbatim>\<open>TabsTrigger\<close> renders: the flags handed to \<^verbatim>\<open>RovingFocusGroup.Item\<close>, the
  attributes of the inner element (the pass-through props come after the explicit
  attributes) and the three composed handlers, which come after the pass-through props.
\<close>

record 'eff TabsTriggerElement =
  focusable :: bool
  active :: bool
  trigger_attrs :: attrs
  el_onKeyDown :: "KeyboardEvent \<Rightarrow> 'eff list"
  el_onMouseDown :: "MouseEvent \<Rightarrow> 'eff list"
  el_onFocus :: "FocusEvent \<Rightarrow> 'eff list"

definition TabsTrigger ::
  "'eff TabsContextValue option \<Rightarrow> TabsTriggerProps \<Rightarrow> error + 'eff TabsTriggerElement" where
  "TabsTrigger env props =
     (case useTabsContext TRIGGER_NAME env of
        Inl e \<Rightarrow> Inl e
      | Inr context \<Rightarrow>
          (let triggerId = makeTriggerId (baseId context) (trigger_value props);
               contentId = makeContentId (baseId context) (trigger_value props);
               selected = isSelected (trigger_value props) context
           in Inr \<lparr>focusable = (\<not> disabled props),
                   active = selected,
                   trigger_attrs =
                     map_of
                       [(''role'', Str ''tab''),
                        (''aria-selected'', Bool selected),
                        (''aria-controls'', Str contentId),
                        (''aria-disabled'', if disabled props then Bool True else Undefined),
                        (''data-state'', Str (if selected then ''active'' else ''inactive'')),
                        (''data-disabled'', if disabled props then Str [] else Undefined),
                        (''id'', Str triggerId)]
                       ++ removeTabsScopeProps (triggerProps props),
                   el_onKeyDown = TabsTrigger_onKeyDown context props,
                   el_onMouseDown = TabsTrigger_onMouseDown context props,
                   el_onFocus = TabsTrigger_onFocus context props\<rparr>))"

section \<open>TabsContent\<close>

definition CONTENT_NAME :: string where
  "CONTENT_NAME = ''TabsContent''"

record 'c TabsContentProps =
  content_value :: string
  children :: 'c
  contentProps :: attrs

text \<open>
  What \<^verbatim>\<open>TabsContent\<close> renders: the attributes of the panel element and its children.
  \<^verbatim>\<open>{isSelected && children}\<close> is the children when selected and \<^verbatim>\<open>false\<close>, which
  renders nothing, otherwise: \<open>None\<close>.
\<close>

record 'c TabsContentElement =
  content_attrs :: attrs
  content_children :: "'c option"

definition TabsContent ::
  "'eff TabsContextValue option \<Rightarrow> 'c TabsContentProps \<Rightarrow> error + 'c TabsContentElement" where
  "TabsContent env props =
     (case useTabsContext CONTENT_NAME env of
        Inl e \<Rightarrow> Inl e
      | Inr context \<Rightarrow>
          (let triggerId = makeTriggerId (baseId context) (content_value props);
               contentId = makeContentId (baseId context) (content_value props);
               selected = isSelected (content_value props) context
           in Inr \<lparr>content_attrs =
                     map_of
                       [(''data-state'', Str (if selected then ''active'' else ''inactive'')),
                        (''data-orientation'', orientation_attr (orientation context)),
                        (''role'', Str ''tabpanel''),
                        (''aria-labelledby'', Str triggerId),
                        (''hidden'', Bool (\<not> selected)),
                        (''id'', Str contentId),
                        (''tabIndex'', Num 0)]
                       ++ removeTabsScopeProps (contentProps props),
                   content_children = (if selected then Some (children props) else None)\<rparr>))"

section \<open>Example inputs\<close>

text \<open>
  Concrete inputs at which the theorems below are evaluated. In \<open>exampleContext\<close> the
  effect of a call of the context callback is the value passed to it, so a handler's
  result is the list of the values it called the callback with. The current selection
  is \<open>''a''\<close> and the base identifier \<open>''x1''\<close>.
\<close>

definition exampleContext :: "string TabsContextValue" where
  "exampleContext =
     \<lparr>baseId = ''x1'', ctx_value = Some ''a'', onValueChange = id,
      orientation = Some horizontal, dir = Some ltr, activationMode = Some automatic\<rparr>"

definition exampleTrigger :: "string \<Rightarrow> TabsTriggerProps" where
  "exampleTrigger v =
     \<lparr>trigger_value = v, disabled = False, onKeyDown = None, onMouseDown = None,
      onFocus = None, triggerProps = Map.empty\<rparr>"

definition examplePanel :: "string \<Rightarrow> string \<Rightarrow> string TabsContentProps" where
  "examplePanel v c = \<lparr>content_value = v, children = c, contentProps = Map.empty\<rparr>"

text \<open>A caller's handler that signals suppression on every event.\<close>

definition suppressingHandler :: "'e \<Rightarrow> bool" where
  "suppressingHandler event = True"

text \<open>An owner whose state is the list of the values its callback was called with.\<close>

definition logCall :: "string \<Rightarrow> string list \<Rightarrow> string list" where
  "logCall v calls = calls @ [v]"

definition exampleTabs :: "(string list) TabsProps" where
  "exampleTabs =
     \<lparr>valueProp = None, onValueChangeProp = Some logCall, defaultValue = Some ''a'',
      orientationProp = None, dirProp = None, activationModeProp = None,
      tabsProps = Map.empty\<rparr>"

section \<open>Auxiliary facts\<close>

lemma filter_key_distinct:
  "distinct (map f xs) \<Longrightarrow> length (filter (\<lambda>x. f x = v) xs) \<le> Suc 0"
  by (induction xs) (auto simp: filter_empty_conv image_iff)

lemma selected_filter:
  "filter (\<lambda>p. isSelected (content_value p) context) panels =
     (case ctx_value context of
        None \<Rightarrow> []
      | Some v \<Rightarrow> filter (\<lambda>p. content_value p = v) panels)"
  by (cases "ctx_value context") (auto simp: isSelected_def intro: filter_cong)

lemma setValue_controlled_fold:
  "fold (useControllableState_setValue (Some v) cb) ws st
     = st\<lparr>owner := fold (handleChange cb) ws (owner st)\<rparr>"
  by (induction ws arbitrary: st) (simp_all add: useControllableState_setValue_def)

lemma setValue_uncontrolled_fold:
  "fold (useControllableState_setValue None cb) ws st
     = st\<lparr>uncontrolledProp := (if ws = [] then uncontrolledProp st else Some (last ws)),
          owner := fold (handleChange cb) ws (owner st)\<rparr>"
  by (induction ws arbitrary: st) (simp_all add: useControllableState_setValue_def)

lemma perform_requests:
  "perform (map (onValueChange (provider (Tabs b props st))) ws) st'
     = fold (useControllableState_setValue (valueProp props) (onValueChangeProp props)) ws st'"
  by (simp add: perform_def Tabs_def Let_def fold_map comp_def)

lemma Tabs_published_value:
  "ctx_value (provider (Tabs b props st)) = useControllableState_value (valueProp props) st"
  by (simp add: Tabs_def Let_def)

section \<open>Disabled triggers and misuse outside a Root\<close>

text \<open>
  C5. A trigger with \<open>disabled = True\<close> never invokes the context change callback:
  the composed key-down, mouse-down and focus handlers all perform no effect, for
  every context (hence every activation mode), every event and every handler of the
  caller's own. Under a Tabs, each of the three events leaves the state behind the
  selection as it was.
\<close>

theorem TabsTrigger_disabled_never_activates:
  "disabled props \<Longrightarrow>
     TabsTrigger_onKeyDown context props ke = []
     \<and> TabsTrigger_onMouseDown context props me = []
     \<and> TabsTrigger_onFocus context props fe = []
     \<and> perform (TabsTrigger_onKeyDown (provider (Tabs b rootProps st)) props ke) st = st
     \<and> perform (TabsTrigger_onMouseDown (provider (Tabs b rootProps st)) props me) st = st
     \<and> perform (TabsTrigger_onFocus (provider (Tabs b rootProps st)) props fe) st = st"
  by (simp add: TabsTrigger_onKeyDown_def TabsTrigger_onMouseDown_def TabsTrigger_onFocus_def
      composeEventHandlers_def handleTabChange_def perform_def)

theorem TabsTrigger_disabled_never_activates_witness:
  "disabled ((exampleTrigger ''b'')\<lparr>disabled := True\<rparr>)
   \<and> TabsTrigger_onKeyDown exampleContext ((exampleTrigger ''b'')\<lparr>disabled := True\<rparr>)
        \<lparr>key = ''Enter''\<rparr> = []
   \<and> TabsTrigger_onMouseDown exampleContext ((exampleTrigger ''b'')\<lparr>disabled := True\<rparr>)
        \<lparr>button = 0, ctrlKey = False\<rparr> = []
   \<and> TabsTrigger_onFocus exampleContext ((exampleTrigger ''b'')\<lparr>disabled := True\<rparr>)
        FocusEvent = []
   \<and> perform
        (TabsTrigger_onKeyDown (provider (Tabs ''x1'' exampleTabs (mount exampleTabs [])))
           ((exampleTrigger ''b'')\<lparr>disabled := True\<rparr>) \<lparr>key = ''Enter''\<rparr>)
        (mount exampleTabs []) = mount exampleTabs []"
  using TabsTrigger_disabled_never_activates
    [of "(exampleTrigger ''b'')\<lparr>disabled := True\<rparr>" exampleContext
        "\<lparr>key = ''Enter''\<rparr>" "\<lparr>button = 0, ctrlKey = False\<rparr>" FocusEvent
        "''x1''" exampleTabs "mount exampleTabs []"]
  by (simp add: exampleContext_def exampleTrigger_def exampleTabs_def logCall_def)

text \<open>
  C9. Rendering a TabsList, a TabsTrigger or a TabsContent with no enclosing Tabs fails
  at render time with an error that names the misused unit and the expected provider;
  inside a Tabs each of them renders an element.
\<close>

theorem render_outside_Tabs_fails:
  "TabsList (None :: 'a TabsContextValue option) lp
     = Inl (MustBeUsedWithin ''TabsList'' ''Tabs'')
   \<and> TabsTrigger (None :: 'a TabsContextValue option) tp
     = Inl (MustBeUsedWithin ''TabsTrigger'' ''Tabs'')
   \<and> TabsContent (None :: 'a TabsContextValue option) cp
     = Inl (MustBeUsedWithin ''TabsContent'' ''Tabs'')
   \<and> (\<exists>el. TabsList (Some context) lp = Inr el)
   \<and> (\<exists>el. TabsTrigger (Some context) tp = Inr el)
   \<and> (\<exists>el. TabsContent (Some context) cp = Inr el)"
  by (simp add: TabsList_def TabsTrigger_def TabsContent_def useTabsContext_def
      TAB_LIST_NAME_def TRIGGER_NAME_def CONTENT_NAME_def TABS_NAME_def Let_def)

section \<open>Interaction paths of an enabled trigger\<close>

text \<open>
  C7, as amended. For every non-disabled TabsTrigger, a key-down event invokes the
  context change callback, once and with the trigger's value, exactly when the key is
  Space or Enter and the caller's own key-down handler, if there is one, does not
  signal suppression; in every other case the key-down path invokes nothing.
\<close>

theorem TabsTrigger_onKeyDown_activation:
  "\<not> disabled props \<Longrightarrow>
     TabsTrigger_onKeyDown context props event =
       (if \<not> signalsSuppression (onKeyDown props) event
           \<and> (key event = '' '' \<or> key event = ''Enter'')
        then [onValueChange context (trigger_value props)] else [])"
  by (simp add: TabsTrigger_onKeyDown_def composeEventHandlers_def handleTabChange_def)

theorem TabsTrigger_onKeyDown_activation_witness:
  "\<not> disabled (exampleTrigger ''b'')
   \<and> TabsTrigger_onKeyDown exampleContext (exampleTrigger ''b'') \<lparr>key = '' ''\<rparr> = [''b'']
   \<and> TabsTrigger_onKeyDown exampleContext (exampleTrigger ''b'') \<lparr>key = ''Enter''\<rparr> = [''b'']
   \<and> TabsTrigger_onKeyDown exampleContext (exampleTrigger ''b'') \<lparr>key = ''ArrowRight''\<rparr> = []"
  using TabsTrigger_onKeyDown_activation [of "exampleTrigger ''b''" exampleContext "\<lparr>key = '' ''\<rparr>"]
    TabsTrigger_onKeyDown_activation [of "exampleTrigger ''b''" exampleContext "\<lparr>key = ''Enter''\<rparr>"]
    TabsTrigger_onKeyDown_activation [of "exampleTrigger ''b''" exampleContext "\<lparr>key = ''ArrowRight''\<rparr>"]
  by (simp add: exampleContext_def exampleTrigger_def signalsSuppression_def)

text \<open>
  The claim as first stated fails: an enabled trigger whose caller supplies a key-down
  handler that signals suppression receives Enter and the callback is not invoked.
\<close>

theorem TabsTrigger_onKeyDown_suppressed_counterexample:
  "\<not> disabled ((exampleTrigger ''b'')\<lparr>onKeyDown := Some suppressingHandler\<rparr>)
   \<and> key \<lparr>key = ''Enter''\<rparr> = ''Enter''
   \<and> TabsTrigger_onKeyDown exampleContext
        ((exampleTrigger ''b'')\<lparr>onKeyDown := Some suppressingHandler\<rparr>) \<lparr>key = ''Enter''\<rparr> = []"
  by (simp add: TabsTrigger_onKeyDown_def composeEventHandlers_def handleTabChange_def
      exampleContext_def exampleTrigger_def suppressingHandler_def signalsSuppression_def)

text \<open>
  C6, as amended. For every non-disabled TabsTrigger, a mouse-down event invokes the
  context change callback, once and with the trigger's value, exactly when the pressed
  button is the primary button, the control modifier is not held and the caller's own
  mouse-down handler, if there is one, does not signal suppression; a mouse-down with
  another button or with control held never invokes it.
\<close>

theorem TabsTrigger_onMouseDown_activation:
  "\<not> disabled props \<Longrightarrow>
     TabsTrigger_onMouseDown context props event =
       (if \<not> signalsSuppression (onMouseDown props) event
           \<and> button event = 0 \<and> \<not> ctrlKey event
        then [onValueChange context (trigger_value props)] else [])"
  by (simp add: TabsTrigger_onMouseDown_def composeEventHandlers_def handleTabChange_def)

theorem TabsTrigger_onMouseDown_activation_witness:
  "\<not> disabled (exampleTrigger ''b'')
   \<and> TabsTrigger_onMouseDown exampleContext (exampleTrigger ''b'')
        \<lparr>button = 0, ctrlKey = False\<rparr> = [''b'']
   \<and> TabsTrigger_onMouseDown exampleContext (exampleTrigger ''b'')
        \<lparr>button = 2, ctrlKey = False\<rparr> = []
   \<and> TabsTrigger_onMouseDown exampleContext (exampleTrigger ''b'')
        \<lparr>button = 0, ctrlKey = True\<rparr> = []"
  using TabsTrigger_onMouseDown_activation
      [of "exampleTrigger ''b''" exampleContext "\<lparr>button = 0, ctrlKey = False\<rparr>"]
    TabsTrigger_onMouseDown_activation
      [of "exampleTrigger ''b''" exampleContext "\<lparr>button = 2, ctrlKey = False\<rparr>"]
    TabsTrigger_onMouseDown_activation
      [of "exampleTrigger ''b''" exampleContext "\<lparr>button = 0, ctrlKey = True\<rparr>"]
  by (simp add: exampleContext_def exampleTrigger_def signalsSuppression_def)

text \<open>
  The claim as first stated fails: a primary-button mouse-down without control on an
  enabled trigger invokes nothing when the caller's mouse-down handler signals
  suppression.
\<close>

theorem TabsTrigger_onMouseDown_suppressed_counterexample:
  "\<not> disabled ((exampleTrigger ''b'')\<lparr>onMouseDown := Some suppressingHandler\<rparr>)
   \<and> button \<lparr>button = 0, ctrlKey = False\<rparr> = 0
   \<and> \<not> ctrlKey \<lparr>button = 0, ctrlKey = False\<rparr>
   \<and> TabsTrigger_onMouseDown exampleContext
        ((exampleTrigger ''b'')\<lparr>onMouseDown := Some suppressingHandler\<rparr>)
        \<lparr>button = 0, ctrlKey = False\<rparr> = []"
  by (simp add: TabsTrigger_onMouseDown_def composeEventHandlers_def handleTabChange_def
      exampleContext_def exampleTrigger_def suppressingHandler_def signalsSuppression_def)

text \<open>
  C4, as amended. For every non-disabled TabsTrigger, a focus event invokes the context
  change callback, once and with the trigger's value, exactly when the trigger is not
  already selected, the activation mode is not manual and the caller's own focus
  handler, if there is one, does not signal suppression. In manual mode receiving focus
  invokes nothing, and under a Tabs whose activation mode is manual it leaves the state
  behind the selection as it was.
\<close>

theorem TabsTrigger_onFocus_activation:
  "(\<not> disabled props \<longrightarrow>
      TabsTrigger_onFocus context props event =
        (if \<not> signalsSuppression (onFocus props) event
            \<and> \<not> isSelected (trigger_value props) context
            \<and> activationMode context \<noteq> Some manual
         then [onValueChange context (trigger_value props)] else []))
   \<and> (activationMode context = Some manual \<longrightarrow>
        TabsTrigger_onFocus context props event = [])
   \<and> (activationModeProp rootProps = Some manual \<longrightarrow>
        perform (TabsTrigger_onFocus (provider (Tabs b rootProps st)) props event) st = st)"
  by (simp add: TabsTrigger_onFocus_def composeEventHandlers_def handleTabChange_def
      Tabs_def Let_def useControllableState_value_def
      useControllableState_setValue_def handleChange_def perform_def mount_def)

theorem TabsTrigger_onFocus_activation_witness:
  "\<not> disabled (exampleTrigger ''b'')
   \<and> TabsTrigger_onFocus exampleContext (exampleTrigger ''b'') FocusEvent = [''b'']
   \<and> TabsTrigger_onFocus exampleContext (exampleTrigger ''a'') FocusEvent = []
   \<and> activationMode (exampleContext\<lparr>activationMode := Some manual\<rparr>) = Some manual
   \<and> TabsTrigger_onFocus (exampleContext\<lparr>activationMode := Some manual\<rparr>)
        (exampleTrigger ''b'') FocusEvent = []
   \<and> activationModeProp (exampleTabs\<lparr>activationModeProp := Some manual\<rparr>) = Some manual
   \<and> perform
        (TabsTrigger_onFocus
           (provider (Tabs ''x1'' (exampleTabs\<lparr>activationModeProp := Some manual\<rparr>)
              (mount exampleTabs [])))
           (exampleTrigger ''b'') FocusEvent)
        (mount exampleTabs []) = mount exampleTabs []"
  using TabsTrigger_onFocus_activation
      [of "exampleTrigger ''b''" exampleContext FocusEvent exampleTabs "''x1''"
          "mount exampleTabs []"]
    TabsTrigger_onFocus_activation
      [of "exampleTrigger ''a''" exampleContext FocusEvent exampleTabs "''x1''"
          "mount exampleTabs []"]
    TabsTrigger_onFocus_activation
      [of "exampleTrigger ''b''" "exampleContext\<lparr>activationMode := Some manual\<rparr>" FocusEvent
          "exampleTabs\<lparr>activationModeProp := Some manual\<rparr>" "''x1''" "mount exampleTabs []"]
  by (simp add: exampleContext_def exampleTrigger_def exampleTabs_def logCall_def signalsSuppression_def isSelected_def)

text \<open>
  The claim as first stated fails: an enabled, unselected trigger in automatic mode
  receives focus and the callback is not invoked, because the caller's focus handler
  signals suppression.
\<close>

theorem TabsTrigger_onFocus_suppressed_counterexample:
  "\<not> disabled ((exampleTrigger ''b'')\<lparr>onFocus := Some suppressingHandler\<rparr>)
   \<and> \<not> isSelected (trigger_value ((exampleTrigger ''b'')\<lparr>onFocus := Some suppressingHandler\<rparr>))
         exampleContext
   \<and> activationMode exampleContext \<noteq> Some manual
   \<and> TabsTrigger_onFocus exampleContext
        ((exampleTrigger ''b'')\<lparr>onFocus := Some suppressingHandler\<rparr>) FocusEvent = []"
  by (simp add: TabsTrigger_onFocus_def composeEventHandlers_def handleTabChange_def
      exampleContext_def exampleTrigger_def suppressingHandler_def signalsSuppression_def isSelected_def)

text \<open>
  C10, as amended. For every non-disabled TabsTrigger whose value already equals the
  current selection, a Space or Enter key-down and a primary-button mouse-down without
  control still invoke the context change callback with that same value, provided the
  caller's own handler for the event does not signal suppression: these two paths are
  not guarded by the selection, unlike the focus path, which invokes nothing on a
  selected trigger. Under a Tabs, such a key-down calls the owner's callback with the
  value that is already selected and leaves the published selection as it was.
\<close>

theorem TabsTrigger_reactivation_when_selected:
  "(\<not> disabled props \<and> isSelected (trigger_value props) context
      \<and> \<not> signalsSuppression (onKeyDown props) ke
      \<and> (key ke = '' '' \<or> key ke = ''Enter'') \<longrightarrow>
      TabsTrigger_onKeyDown context props ke = [onValueChange context (trigger_value props)])
   \<and> (\<not> disabled props \<and> isSelected (trigger_value props) context
      \<and> \<not> signalsSuppression (onMouseDown props) me
      \<and> button me = 0 \<and> \<not> ctrlKey me \<longrightarrow>
      TabsTrigger_onMouseDown context props me = [onValueChange context (trigger_value props)])
   \<and> (isSelected (trigger_value props) context \<longrightarrow>
      TabsTrigger_onFocus context props fe = [])
   \<and> (\<not> disabled props \<and> isSelected (trigger_value props) (provider (Tabs b rootProps st))
      \<and> \<not> signalsSuppression (onKeyDown props) ke
      \<and> (key ke = '' '' \<or> key ke = ''Enter'') \<longrightarrow>
      owner (perform (TabsTrigger_onKeyDown (provider (Tabs b rootProps st)) props ke) st)
        = handleChange (onValueChangeProp rootProps) (trigger_value props) (owner st)
      \<and> ctx_value (provider (Tabs b rootProps
           (perform (TabsTrigger_onKeyDown (provider (Tabs b rootProps st)) props ke) st)))
        = Some (trigger_value props))"
  by (auto simp: TabsTrigger_onKeyDown_def TabsTrigger_onMouseDown_def TabsTrigger_onFocus_def
      composeEventHandlers_def handleTabChange_def
      Tabs_def Let_def useControllableState_value_def
      useControllableState_setValue_def handleChange_def perform_def mount_def isSelected_def
      split: option.splits)

theorem TabsTrigger_reactivation_when_selected_witness:
  "\<not> disabled (exampleTrigger ''a'')
   \<and> isSelected (trigger_value (exampleTrigger ''a'')) exampleContext
   \<and> \<not> signalsSuppression (onKeyDown (exampleTrigger ''a'')) \<lparr>key = ''Enter''\<rparr>
   \<and> \<not> signalsSuppression (onMouseDown (exampleTrigger ''a'')) \<lparr>button = 0, ctrlKey = False\<rparr>
   \<and> TabsTrigger_onKeyDown exampleContext (exampleTrigger ''a'') \<lparr>key = ''Enter''\<rparr> = [''a'']
   \<and> TabsTrigger_onMouseDown exampleContext (exampleTrigger ''a'')
        \<lparr>button = 0, ctrlKey = False\<rparr> = [''a'']
   \<and> TabsTrigger_onFocus exampleContext (exampleTrigger ''a'') FocusEvent = []
   \<and> isSelected (trigger_value (exampleTrigger ''a''))
        (provider (Tabs ''x1'' exampleTabs (mount exampleTabs [])))
   \<and> owner (perform
        (TabsTrigger_onKeyDown (provider (Tabs ''x1'' exampleTabs (mount exampleTabs [])))
           (exampleTrigger ''a'') \<lparr>key = ''Enter''\<rparr>)
        (mount exampleTabs [])) = [''a'']"
  using TabsTrigger_reactivation_when_selected
      [of "exampleTrigger ''a''" exampleContext "\<lparr>key = ''Enter''\<rparr>"
          "\<lparr>button = 0, ctrlKey = False\<rparr>" FocusEvent "''x1''" exampleTabs "mount exampleTabs []"]
  by (simp add: exampleContext_def exampleTrigger_def exampleTabs_def logCall_def signalsSuppression_def isSelected_def
      Tabs_def Let_def useControllableState_value_def
      useControllableState_setValue_def handleChange_def perform_def mount_def)

text \<open>
  The claim as first stated fails: an enabled trigger that is already selected
  receives Enter and the callback is not invoked, because the caller's key-down handler
  signals suppression.
\<close>

theorem TabsTrigger_reactivation_suppressed_counterexample:
  "\<not> disabled ((exampleTrigger ''a'')\<lparr>onKeyDown := Some suppressingHandler\<rparr>)
   \<and> isSelected (trigger_value ((exampleTrigger ''a'')\<lparr>onKeyDown := Some suppressingHandler\<rparr>))
        exampleContext
   \<and> key \<lparr>key = ''Enter''\<rparr> = ''Enter''
   \<and> TabsTrigger_onKeyDown exampleContext
        ((exampleTrigger ''a'')\<lparr>onKeyDown := Some suppressingHandler\<rparr>) \<lparr>key = ''Enter''\<rparr> = []"
  by (simp add: TabsTrigger_onKeyDown_def composeEventHandlers_def handleTabChange_def
      exampleContext_def exampleTrigger_def suppressingHandler_def signalsSuppression_def isSelected_def)

section \<open>Selection and rendering of panels\<close>

text \<open>
  C1, as amended. For all mounted TabsContent panels under one context, a panel has
  isSelected exactly when its value equals the current selection value published in the
  context, and every other panel is inactive; all selected panels therefore carry the
  same value, and when the values of the panels are pairwise distinct at most one panel
  is selected.
\<close>

theorem TabsContent_selection_exclusive:
  "(\<forall>p \<in> set panels.
      isSelected (content_value p) context = (ctx_value context = Some (content_value p)))
   \<and> (\<forall>p \<in> set panels. \<forall>q \<in> set panels.
        isSelected (content_value p) context \<and> isSelected (content_value q) context
        \<longrightarrow> content_value p = content_value q)
   \<and> (distinct (map content_value panels) \<longrightarrow>
        length (filter (\<lambda>p. isSelected (content_value p) context) panels) \<le> 1)"
proof -
  have "length (filter (\<lambda>p. isSelected (content_value p) context) panels) \<le> 1"
    if d: "distinct (map content_value panels)"
  proof (cases "ctx_value context")
    case None
    then show ?thesis by (simp add: selected_filter)
  next
    case (Some v)
    then show ?thesis
      using filter_key_distinct [OF d, of v] by (simp add: selected_filter)
  qed
  then show ?thesis
    by (auto simp: isSelected_def)
qed

theorem TabsContent_selection_exclusive_witness:
  "examplePanel ''a'' ''one''
     \<in> set [examplePanel ''a'' ''one'', examplePanel ''b'' ''two'', examplePanel ''c'' ''three'']
   \<and> distinct (map content_value
        [examplePanel ''a'' ''one'', examplePanel ''b'' ''two'', examplePanel ''c'' ''three''])
   \<and> filter (\<lambda>p. isSelected (content_value p) exampleContext)
        [examplePanel ''a'' ''one'', examplePanel ''b'' ''two'', examplePanel ''c'' ''three'']
       = [examplePanel ''a'' ''one'']
   \<and> length (filter (\<lambda>p. isSelected (content_value p) exampleContext)
        [examplePanel ''a'' ''one'', examplePanel ''b'' ''two'', examplePanel ''c'' ''three''])
       \<le> 1"
  using TabsContent_selection_exclusive
      [of "[examplePanel ''a'' ''one'', examplePanel ''b'' ''two'', examplePanel ''c'' ''three'']"
          exampleContext]
  by (simp add: isSelected_def exampleContext_def examplePanel_def)

text \<open>
  The claim as first stated fails: two different panels mounted with the same value are
  both selected when that value is the current selection.
\<close>

theorem TabsContent_selection_counterexample:
  "examplePanel ''a'' ''first'' \<noteq> examplePanel ''a'' ''second''
   \<and> isSelected (content_value (examplePanel ''a'' ''first'')) exampleContext
   \<and> isSelected (content_value (examplePanel ''a'' ''second'')) exampleContext"
  by (simp add: isSelected_def exampleContext_def examplePanel_def)

text \<open>
  C2, as amended. For every base identifier \<open>b\<close> and tab value \<open>v\<close>, the derived
  trigger identifier is exactly \<open>b @ ''-trigger-'' @ v\<close> and the derived content
  identifier exactly \<open>b @ ''-content-'' @ v\<close>. When a TabsTrigger and a TabsContent
  under the same context carry the same value and the pass-through props of neither set
  \<open>id\<close>, \<open>aria-controls\<close> or \<open>aria-labelledby\<close>, the panel's \<open>aria-labelledby\<close> equals the
  trigger's \<open>id\<close> and the trigger's \<open>aria-controls\<close> equals the panel's \<open>id\<close>.
\<close>

theorem identifier_cross_reference:
  "makeTriggerId b v = b @ ''-trigger-'' @ v
   \<and> makeContentId b v = b @ ''-content-'' @ v
   \<and> (trigger_value tp = content_value cp
        \<and> triggerProps tp ''id'' = None \<and> triggerProps tp ''aria-controls'' = None
        \<and> contentProps cp ''id'' = None \<and> contentProps cp ''aria-labelledby'' = None
      \<longrightarrow> (\<exists>t c. TabsTrigger (Some context) tp = Inr t
             \<and> TabsContent (Some context) cp = Inr c
             \<and> content_attrs c ''aria-labelledby'' = trigger_attrs t ''id''
             \<and> trigger_attrs t ''id''
                 = Some (Str (makeTriggerId (baseId context) (trigger_value tp)))
             \<and> trigger_attrs t ''aria-controls'' = content_attrs c ''id''
             \<and> content_attrs c ''id''
                 = Some (Str (makeContentId (baseId context) (content_value cp)))))"
  by (simp add: TabsTrigger_def TabsContent_def useTabsContext_def Let_def removeTabsScopeProps_def
      isScopeProp_def map_add_def makeTriggerId_def makeContentId_def isSelected_def)

theorem identifier_cross_reference_witness:
  "trigger_value (exampleTrigger ''tab1'') = content_value (examplePanel ''tab1'' ''text'')
   \<and> triggerProps (exampleTrigger ''tab1'') ''id'' = None
   \<and> triggerProps (exampleTrigger ''tab1'') ''aria-controls'' = None
   \<and> contentProps (examplePanel ''tab1'' ''text'') ''id'' = None
   \<and> contentProps (examplePanel ''tab1'' ''text'') ''aria-labelledby'' = None
   \<and> trigger_attrs (projr (TabsTrigger (Some exampleContext) (exampleTrigger ''tab1''))) ''id''
       = Some (Str ''x1-trigger-tab1'')
   \<and> content_attrs (projr (TabsContent (Some exampleContext) (examplePanel ''tab1'' ''text'')))
        ''aria-labelledby'' = Some (Str ''x1-trigger-tab1'')
   \<and> content_attrs (projr (TabsContent (Some exampleContext) (examplePanel ''tab1'' ''text'')))
        ''id'' = Some (Str ''x1-content-tab1'')
   \<and> trigger_attrs (projr (TabsTrigger (Some exampleContext) (exampleTrigger ''tab1'')))
        ''aria-controls'' = Some (Str ''x1-content-tab1'')"
  using identifier_cross_reference
      [of "''x1''" "''tab1''" "exampleTrigger ''tab1''" "examplePanel ''tab1'' ''text''"
          exampleContext]
  by (auto simp: exampleContext_def exampleTrigger_def examplePanel_def makeTriggerId_def makeContentId_def)

text \<open>
  The claim as first stated fails: the caller passes an \<open>id\<close> of its own to the trigger,
  which overrides the derived one, while the panel with the same value still refers to
  the derived trigger identifier.
\<close>

theorem identifier_cross_reference_counterexample:
  "trigger_value ((exampleTrigger ''tab1'')\<lparr>triggerProps := [''id'' \<mapsto> Str ''my-tab'']\<rparr>)
     = content_value (examplePanel ''tab1'' ''text'')
   \<and> trigger_attrs (projr (TabsTrigger (Some exampleContext)
        ((exampleTrigger ''tab1'')\<lparr>triggerProps := [''id'' \<mapsto> Str ''my-tab'']\<rparr>))) ''id''
       = Some (Str ''my-tab'')
   \<and> content_attrs (projr (TabsContent (Some exampleContext) (examplePanel ''tab1'' ''text'')))
        ''aria-labelledby'' = Some (Str ''x1-trigger-tab1'')"
  by (simp add: TabsTrigger_def TabsContent_def useTabsContext_def Let_def removeTabsScopeProps_def
      isScopeProp_def map_add_def makeTriggerId_def makeContentId_def isSelected_def
      exampleContext_def exampleTrigger_def examplePanel_def)

text \<open>
  C3, as amended. Every TabsContent under a context renders its element. When its value
  does not equal the current selection it renders none of its children, and when it is
  selected it renders them. The element carries the derived content identifier unless
  the pass-through props set \<open>id\<close>, and its \<open>hidden\<close> attribute is true exactly when the
  panel is not selected unless the pass-through props set \<open>hidden\<close>.
\<close>

theorem TabsContent_hidden_unless_selected:
  "\<exists>el. TabsContent (Some context) props = Inr el
     \<and> content_children el =
         (if ctx_value context = Some (content_value props)
          then Some (children props) else None)
     \<and> (contentProps props ''id'' = None \<longrightarrow>
          content_attrs el ''id''
            = Some (Str (makeContentId (baseId context) (content_value props))))
     \<and> (contentProps props ''hidden'' = None \<longrightarrow>
          content_attrs el ''hidden''
            = Some (Bool (ctx_value context \<noteq> Some (content_value props))))"
  by (simp add: TabsContent_def useTabsContext_def Let_def removeTabsScopeProps_def isScopeProp_def
      map_add_def makeTriggerId_def makeContentId_def isSelected_def)

theorem TabsContent_hidden_unless_selected_witness:
  "contentProps (examplePanel ''b'' ''text'') ''id'' = None
   \<and> contentProps (examplePanel ''b'' ''text'') ''hidden'' = None
   \<and> content_attrs (projr (TabsContent (Some exampleContext) (examplePanel ''b'' ''text'')))
        ''id'' = Some (Str ''x1-content-b'')
   \<and> content_attrs (projr (TabsContent (Some exampleContext) (examplePanel ''b'' ''text'')))
        ''hidden'' = Some (Bool True)
   \<and> content_children (projr (TabsContent (Some exampleContext) (examplePanel ''b'' ''text'')))
       = None
   \<and> contentProps (examplePanel ''a'' ''text'') ''hidden'' = None
   \<and> content_attrs (projr (TabsContent (Some exampleContext) (examplePanel ''a'' ''text'')))
        ''hidden'' = Some (Bool False)
   \<and> content_children (projr (TabsContent (Some exampleContext) (examplePanel ''a'' ''text'')))
       = Some ''text''"
  using TabsContent_hidden_unless_selected [of exampleContext "examplePanel ''b'' ''text''"]
    TabsContent_hidden_unless_selected [of exampleContext "examplePanel ''a'' ''text''"]
  by (auto simp: exampleContext_def examplePanel_def makeContentId_def)

text \<open>
  The claim as first stated fails: a panel that is not selected and whose caller passes
  \<open>hidden = false\<close> renders an element whose \<open>hidden\<close> attribute is false.
\<close>

theorem TabsContent_hidden_counterexample:
  "ctx_value exampleContext
     \<noteq> Some (content_value
          ((examplePanel ''b'' ''text'')\<lparr>contentProps := [''hidden'' \<mapsto> Bool False]\<rparr>))
   \<and> content_attrs (projr (TabsContent (Some exampleContext)
        ((examplePanel ''b'' ''text'')\<lparr>contentProps := [''hidden'' \<mapsto> Bool False]\<rparr>)))
        ''hidden'' = Some (Bool False)"
  by (simp add: TabsContent_def useTabsContext_def Let_def removeTabsScopeProps_def isScopeProp_def
      map_add_def makeTriggerId_def makeContentId_def isSelected_def
      exampleContext_def examplePanel_def)

section \<open>Controlled and uncontrolled selection\<close>

text \<open>
  C8. When an external value is supplied to Tabs, that value is the one published to the
  descendants in every state; activation requests through the context callback call
  the owner's callback, when there is one, with each requested value in turn, leave the
  internal cell alone and do not change what is published, which changes only when the
  owner renders with a new external value. When no external value is supplied, the
  published value is the internal cell, and activation requests store the requested
  value in the cell and call the same callback, so that the last requested value is
  published afterwards.
\<close>

theorem Tabs_controllable_state:
  "(valueProp props = Some v \<longrightarrow>
      ctx_value (provider (Tabs b props st)) = Some v
      \<and> uncontrolledProp (perform (map (onValueChange (provider (Tabs b props st))) ws) st)
          = uncontrolledProp st
      \<and> owner (perform (map (onValueChange (provider (Tabs b props st))) ws) st)
          = fold (handleChange (onValueChangeProp props)) ws (owner st)
      \<and> ctx_value (provider (Tabs b props
            (perform (map (onValueChange (provider (Tabs b props st))) ws) st))) = Some v
      \<and> ctx_value (provider (Tabs b (props\<lparr>valueProp := Some v'\<rparr>)
            (perform (map (onValueChange (provider (Tabs b props st))) ws) st))) = Some v')
   \<and> (valueProp props = None \<longrightarrow>
      ctx_value (provider (Tabs b props st)) = uncontrolledProp st
      \<and> uncontrolledProp (perform (map (onValueChange (provider (Tabs b props st))) ws) st)
          = (if ws = [] then uncontrolledProp st else Some (last ws))
      \<and> owner (perform (map (onValueChange (provider (Tabs b props st))) ws) st)
          = fold (handleChange (onValueChangeProp props)) ws (owner st)
      \<and> ctx_value (provider (Tabs b props
            (perform (map (onValueChange (provider (Tabs b props st))) ws) st)))
          = (if ws = [] then uncontrolledProp st else Some (last ws)))
   \<and> handleChange (Some f) w ow = f w ow
   \<and> handleChange None w ow = ow"
  by (simp add: perform_requests setValue_controlled_fold setValue_uncontrolled_fold
      Tabs_published_value useControllableState_value_def handleChange_def)

theorem Tabs_controllable_state_witness:
  "valueProp (exampleTabs\<lparr>valueProp := Some ''b''\<rparr>) = Some ''b''
   \<and> ctx_value (provider (Tabs ''x1'' (exampleTabs\<lparr>valueProp := Some ''b''\<rparr>)
        (mount exampleTabs []))) = Some ''b''
   \<and> owner (perform
        (map (onValueChange (provider (Tabs ''x1'' (exampleTabs\<lparr>valueProp := Some ''b''\<rparr>)
           (mount exampleTabs [])))) [''a'', ''c''])
        (mount exampleTabs [])) = [''a'', ''c'']
   \<and> ctx_value (provider (Tabs ''x1'' (exampleTabs\<lparr>valueProp := Some ''b''\<rparr>)
        (perform
           (map (onValueChange (provider (Tabs ''x1'' (exampleTabs\<lparr>valueProp := Some ''b''\<rparr>)
              (mount exampleTabs [])))) [''a'', ''c''])
           (mount exampleTabs [])))) = Some ''b''
   \<and> valueProp exampleTabs = None
   \<and> ctx_value (provider (Tabs ''x1'' exampleTabs (mount exampleTabs []))) = Some ''a''
   \<and> owner (perform
        (map (onValueChange (provider (Tabs ''x1'' exampleTabs (mount exampleTabs []))))
           [''b'', ''c''])
        (mount exampleTabs [])) = [''b'', ''c'']
   \<and> ctx_value (provider (Tabs ''x1'' exampleTabs
        (perform
           (map (onValueChange (provider (Tabs ''x1'' exampleTabs (mount exampleTabs []))))
              [''b'', ''c''])
           (mount exampleTabs [])))) = Some ''c''"
  using Tabs_controllable_state
      [of "exampleTabs\<lparr>valueProp := Some ''b''\<rparr>" "''b''" "''x1''" "mount exampleTabs []"
          "[''a'', ''c'']" "''b''"]
    Tabs_controllable_state
      [of exampleTabs "''b''" "''x1''" "mount exampleTabs []" "[''b'', ''c'']" "''b''"]
  by (simp add: exampleTabs_def logCall_def Tabs_def Let_def useControllableState_value_def
      useControllableState_setValue_def handleChange_def perform_def mount_def)

end
